theory Spec2Isabelle
  imports Complex_Main
begin

section \<open>Video identifiers: \<open>utils.extract_video_id\<close>\<close>

text \<open>
  Python strings are modelled as \<^typ>\<open>string\<close>; a character outside ASCII stands as its
  UTF-8 bytes, none of which is a character the pattern names. The pattern of
  \<open>extract_video_id\<close> is
  \<^verbatim>\<open>(?:v=|/)([0-9A-Za-z_-]{11})(?:[&?]|$)\<close>
  and it is used with \<open>re.search\<close>, which tries the pattern at every position from the
  left and returns the first position where it matches; group 1 is the 11-character token.
  Without the MULTILINE flag, Python's \<open>$\<close> matches at the very end of the string and also
  just before a newline that is the last character of the string.
\<close>

definition id_char :: "char \<Rightarrow> bool" where
  \<comment> \<open>the character class \<^verbatim>\<open>[0-9A-Za-z_-]\<close>\<close>
  "id_char c =
     (let n = (of_char c :: nat) in
        (of_char CHR ''0'' \<le> n \<and> n \<le> of_char CHR ''9'') \<or>
        (of_char CHR ''A'' \<le> n \<and> n \<le> of_char CHR ''Z'') \<or>
        (of_char CHR ''a'' \<le> n \<and> n \<le> of_char CHR ''z'') \<or>
        c = CHR ''_'' \<or> c = CHR ''-'')"

definition terminator :: "string \<Rightarrow> bool" where
  \<comment> \<open>\<^verbatim>\<open>(?:[&?]|$)\<close> tried on the rest of the subject string\<close>
  "terminator rest =
     (case rest of
        [] \<Rightarrow> True
      | c # cs \<Rightarrow> c = CHR ''&'' \<or> c = CHR ''?'' \<or> (c = CHR ''\<newline>'' \<and> cs = []))"

definition after_intro :: "string \<Rightarrow> string option" where
  \<comment> \<open>\<^verbatim>\<open>(?:v=|/)\<close>: what is left of the subject after the introducer, if it is there\<close>
  "after_intro s =
     (if take 2 s = ''v='' then Some (drop 2 s)
      else if take 1 s = ''/'' then Some (drop 1 s)
      else None)"

definition match_here :: "string \<Rightarrow> string option" where
  \<comment> \<open>the whole pattern tried at the start of \<open>s\<close>; the result is group 1\<close>
  "match_here s =
     (case after_intro s of
        None \<Rightarrow> None
      | Some r \<Rightarrow>
          (if 11 \<le> length r \<and> list_all id_char (take 11 r) \<and> terminator (drop 11 r)
           then Some (take 11 r) else None))"

fun re_search :: "string \<Rightarrow> string option" where
  "re_search [] = match_here []"
| "re_search (c # cs) =
     (case match_here (c # cs) of Some g \<Rightarrow> Some g | None \<Rightarrow> re_search cs)"

definition extract_video_id :: "string \<Rightarrow> string option" where
  \<comment> \<open>\<open>match.group(1) if match else None\<close>\<close>
  "extract_video_id url = re_search url"

definition spec_has_token :: "string \<Rightarrow> bool" where
  \<comment> \<open>the specification's words: somewhere in the URL there are 11 characters of the class
      followed by \<open>&\<close>, by \<open>?\<close> or by the end of the string\<close>
  "spec_has_token url =
     list_ex (\<lambda>i. i + 11 \<le> length url \<and> list_all id_char (take 11 (drop i url)) \<and>
                 (case drop (i + 11) url of
                    [] \<Rightarrow> True
                  | c # cs \<Rightarrow> c = CHR ''&'' \<or> c = CHR ''?''))
       [0..<length url]"

section \<open>Transcripts: \<open>utils.fetch_transcript\<close>\<close>

text \<open>
  Exceptions are values. \<open>NoTranscriptFound\<close> is the transcript library's signal that
  no transcript exists in the requested languages, \<open>OtherException\<close> stands for any
  other \<open>Exception\<close> an external call raises, and \<open>RuntimeError\<close> is the built-in
  class the repository raises itself; its second argument is the exception that was
  being handled when it was raised (Python's \<open>__context__\<close>), if any.
\<close>

datatype exn =
    NoTranscriptFound string
  | OtherException string
  | RuntimeError string "exn option"

fun exn_str :: "exn \<Rightarrow> string" where
  \<comment> \<open>\<open>str(e)\<close>, as interpolated by the f-string\<close>
  "exn_str (NoTranscriptFound m) = m"
| "exn_str (OtherException m) = m"
| "exn_str (RuntimeError m c) = m"

record snippet =
  snippet_text :: string

text \<open>
  \<open>YouTubeTranscriptApi().fetch(video_id, languages=...)\<close> is a network call of a
  third-party library: it is a parameter of the model, threaded through a world state
  \<open>'w\<close> so that two calls need not agree and every call is observable. \<open>print\<close>
  writes to the standard output of the process, which raises when it cannot take the
  message (a \<open>UnicodeEncodeError\<close> where its encoding has no code for a character of
  the message): it is a parameter too, and returns the exception it raises, if any.
\<close>

type_synonym 'w transcript_api =
  "string \<Rightarrow> string list \<Rightarrow> 'w \<Rightarrow> (exn + snippet list) \<times> 'w"

type_synonym 'w printer =
  "string \<Rightarrow> 'w \<Rightarrow> exn option \<times> 'w"

fun str_join :: "string \<Rightarrow> string list \<Rightarrow> string" where
  \<comment> \<open>\<open>sep.join(xs)\<close>\<close>
  "str_join sep [] = []"
| "str_join sep [x] = x"
| "str_join sep (x # y # ys) = x @ sep @ str_join sep (y # ys)"

definition no_english_message :: string where
  \<comment> \<open>it starts with U+26A0 U+FE0F in UTF-8\<close>
  "no_english_message =
     [CHR 0xE2, CHR 0x9A, CHR 0xA0, CHR 0xEF, CHR 0xB8, CHR 0x8F] @
     '' No English transcript found, trying auto or other languages...''"

definition unavailable_prefix :: string where
  \<comment> \<open>the literal part of the f-string; it starts with U+274C in UTF-8\<close>
  "unavailable_prefix =
     [CHR 0xE2, CHR 0x9D, CHR 0x8C] @ '' Transcript not available for this video: ''"

definition extracted_message :: string where
  \<comment> \<open>it starts with U+2705 in UTF-8\<close>
  "extracted_message =
     [CHR 0xE2, CHR 0x9C, CHR 0x85] @ '' Transcript successfully extracted!\<newline>''"

definition fetch_transcript ::
  "'w transcript_api \<Rightarrow> 'w printer \<Rightarrow> string \<Rightarrow> 'w \<Rightarrow> (exn + string) \<times> 'w" where
  \<comment> \<open>the outer \<open>case\<close> is the \<open>try\<close> statement, with the first \<open>print\<close> in its handler and
      outside the inner \<open>try\<close>; what follows it is the code after the statement\<close>
  "fetch_transcript ytt_api print_out video_id w =
     (case (case ytt_api video_id [''en''] w of
              (Inl (NoTranscriptFound m), w1) \<Rightarrow>
                (case print_out no_english_message w1 of
                   (Some raised, w2) \<Rightarrow> (Inl raised, w2)
                 | (None, w2) \<Rightarrow>
                     (case ytt_api video_id [''auto'', ''hi'', ''en''] w2 of
                        (Inl e, w3) \<Rightarrow>
                          (Inl (RuntimeError (unavailable_prefix @ exn_str e) (Some e)), w3)
                      | (Inr fetched_transcript, w3) \<Rightarrow> (Inr fetched_transcript, w3)))
            | (Inl e, w1) \<Rightarrow> (Inl e, w1)
            | (Inr fetched_transcript, w1) \<Rightarrow> (Inr fetched_transcript, w1)) of
        (Inl e, w') \<Rightarrow> (Inl e, w')
      | (Inr fetched_transcript, w') \<Rightarrow>
          (let full_text = str_join '' '' (map snippet_text fetched_transcript) in
           case print_out extracted_message w' of
             (Some raised, w'') \<Rightarrow> (Inl raised, w'')
           | (None, w'') \<Rightarrow> (Inr full_text, w'')))"

text \<open>
  To count the attempts, any transcript source can be run with a log of the language
  lists it was asked for; the log is part of the world, so no call escapes it, and
  printing leaves it alone.
\<close>

definition logged :: "'w transcript_api \<Rightarrow> ('w \<times> string list list) transcript_api" where
  "logged ytt_api video_id languages wl =
     (case ytt_api video_id languages (fst wl) of
        (r, w') \<Rightarrow> (r, (w', snd wl @ [languages])))"

definition beside_log :: "'w printer \<Rightarrow> ('w \<times> string list list) printer" where
  "beside_log print_out message wl =
     (case print_out message (fst wl) of
        (r, w') \<Rightarrow> (r, (w', snd wl)))"

definition attempts ::
  "'w transcript_api \<Rightarrow> 'w printer \<Rightarrow> string \<Rightarrow> 'w \<Rightarrow> string list list" where
  "attempts ytt_api print_out video_id w =
     snd (snd (fetch_transcript (logged ytt_api) (beside_log print_out) video_id (w, [])))"

definition spec_join :: "string \<Rightarrow> string list \<Rightarrow> string" where
  \<comment> \<open>the specification's words: the texts in order, the separator between neighbours\<close>
  "spec_join sep xs = concat (map (\<lambda>i. (if i = 0 then [] else sep) @ xs ! i) [0..<length xs])"

section \<open>The retrieval-augmented pipeline: \<open>rag_system.RAGSystem\<close>\<close>

text \<open>
  The splitter, the embedding model, the FAISS vector store and the chat model are
  objects of third-party libraries. The model keeps what the repository passes to them
  and takes what they compute as parameters (\<open>services\<close>); the calls that reach a
  remote provider thread the world and may raise. Constructing the three objects is
  taken not to raise, and the progress messages printed on the way are left out.
\<close>

record document =
  page_content :: string

record text_splitter =
  splitter_chunk_size :: int
  splitter_chunk_overlap :: int

record chat_model =
  model :: string
  model_temperature :: real

record 'vs vs_retriever =
  store :: 'vs
  search_type :: string
  search_k :: int

record 'vs rag_chain =
  chain_retriever :: "'vs vs_retriever"
  chain_prompt :: string
  chain_llm :: chat_model

record ('w, 'vs) services =
  create_documents :: "text_splitter \<Rightarrow> string list \<Rightarrow> document list"
  from_documents :: "document list \<Rightarrow> string \<Rightarrow> 'w \<Rightarrow> (exn + 'vs) \<times> 'w"
  retriever_invoke :: "'vs vs_retriever \<Rightarrow> string \<Rightarrow> 'w \<Rightarrow> (exn + document list) \<times> 'w"
  llm_invoke :: "chat_model \<Rightarrow> string \<Rightarrow> 'w \<Rightarrow> (exn + string) \<times> 'w"

record 'vs RAGSystem =
  chunk_size :: int
  chunk_overlap :: int
  k :: int
  temperature :: real
  splitter :: text_splitter
  embeddings_model :: string
  llm :: chat_model
  prompt :: string
  vector_store :: "'vs option"
  retriever :: "'vs vs_retriever option"
  chain :: "'vs rag_chain option"

definition prompt_template :: string where
  "prompt_template =
     ''You are an expert AI assistant. Use the following context to answer the question at the end.\<newline>'' @
     ''      if you don't know the answer, just say that you don't know, don't try to make up an answer.\<newline>'' @
     ''        Context: {context}\<newline>'' @
     ''        question: {question}\<newline>'' @
     ''         ''"

definition RAGSystem_init :: "int \<Rightarrow> int \<Rightarrow> int \<Rightarrow> real \<Rightarrow> 'vs RAGSystem" where
  \<comment> \<open>\<open>RAGSystem.__init__\<close>\<close>
  "RAGSystem_init chunk_size' chunk_overlap' k' temperature' =
     \<lparr> chunk_size = chunk_size',
       chunk_overlap = chunk_overlap',
       k = k',
       temperature = temperature',
       splitter = \<lparr> splitter_chunk_size = chunk_size', splitter_chunk_overlap = chunk_overlap' \<rparr>,
       embeddings_model = ''text-embedding-3-small'',
       llm = \<lparr> model = ''gpt-4o-mini'', model_temperature = temperature' \<rparr>,
       prompt = prompt_template,
       vector_store = None,
       retriever = None,
       chain = None \<rparr>"

definition format_docs :: "document list \<Rightarrow> string" where
  \<comment> \<open>\<open>RAGSystem._format_docs\<close>\<close>
  "format_docs retrieved_docs = str_join ''\<newline>\<newline>'' (map page_content retrieved_docs)"

definition build_chain :: "'vs RAGSystem \<Rightarrow> exn + 'vs RAGSystem" where
  \<comment> \<open>\<open>RAGSystem._build_chain\<close>; piping \<open>None\<close> into a runnable raises \<open>TypeError\<close>\<close>
  "build_chain self =
     (case retriever self of
        None \<Rightarrow> Inl (OtherException ''TypeError'')
      | Some r \<Rightarrow>
          Inr (self \<lparr> chain := Some \<lparr> chain_retriever = r, chain_prompt = prompt self,
                                      chain_llm = llm self \<rparr> \<rparr>))"

definition index_transcript ::
  "('w, 'vs) services \<Rightarrow> 'vs RAGSystem \<Rightarrow> string \<Rightarrow> 'w \<Rightarrow> exn option \<times> 'vs RAGSystem \<times> 'w" where
  \<comment> \<open>returns the exception raised, if any, the object as the call leaves it, and the world\<close>
  "index_transcript svc self transcript_text w =
     (let chunks = create_documents svc (splitter self) [transcript_text] in
      case from_documents svc chunks (embeddings_model self) w of
        (Inl e, w1) \<Rightarrow> (Some e, self, w1)
      | (Inr vs, w1) \<Rightarrow>
          (let self1 = self \<lparr> vector_store := Some vs \<rparr>;
               self2 = self1 \<lparr> retriever := Some \<lparr> store = vs, search_type = ''similarity'',
                                                   search_k = k self1 \<rparr> \<rparr>
           in case build_chain self2 of
                Inl e \<Rightarrow> (Some e, self2, w1)
              | Inr self3 \<Rightarrow> (None, self3, w1)))"


text \<open>
  \<open>PromptTemplate\<close> fills an f-string template with Python's string formatter. The
  scanner below reads the template from the left: a doubled brace is a literal brace,
  \<open>{name}\<close> is replaced by the value given for \<open>name\<close>, a missing value is a
  \<open>KeyError\<close> and an unbalanced brace a \<open>ValueError\<close>. The substituted values are
  not scanned again. Conversions and format specifications inside a field are not
  modelled; the template of this repository has none.
\<close>

fun format_scan :: "(string \<Rightarrow> string option) \<Rightarrow> string option \<Rightarrow> string \<Rightarrow> exn + string" where
  "format_scan kw None [] = Inr []"
| "format_scan kw (Some name) [] = Inl (OtherException ''ValueError'')"
| "format_scan kw (Some name) (c # cs) =
     (if c = CHR ''}'' then
        (case kw name of
           None \<Rightarrow> Inl (OtherException ''KeyError'')
         | Some v \<Rightarrow>
             (case format_scan kw None cs of Inl e \<Rightarrow> Inl e | Inr out \<Rightarrow> Inr (v @ out)))
      else format_scan kw (Some (name @ [c])) cs)"
| "format_scan kw None (c # cs) =
     (if c = CHR ''{'' then
        (case cs of
           [] \<Rightarrow> Inl (OtherException ''ValueError'')
         | c' # cs' \<Rightarrow>
             if c' = CHR ''{''
             then (case format_scan kw None cs' of Inl e \<Rightarrow> Inl e | Inr out \<Rightarrow> Inr (CHR ''{'' # out))
             else format_scan kw (Some []) cs)
      else if c = CHR ''}'' then
        (case cs of
           [] \<Rightarrow> Inl (OtherException ''ValueError'')
         | c' # cs' \<Rightarrow>
             if c' = CHR ''}''
             then (case format_scan kw None cs' of Inl e \<Rightarrow> Inl e | Inr out \<Rightarrow> Inr (CHR ''}'' # out))
             else Inl (OtherException ''ValueError''))
      else (case format_scan kw None cs of Inl e \<Rightarrow> Inl e | Inr out \<Rightarrow> Inr (c # out)))"

definition prompt_format :: "string \<Rightarrow> (string \<times> string) list \<Rightarrow> exn + string" where
  "prompt_format template kwargs = format_scan (map_of kwargs) None template"

definition chain_invoke ::
  "('w, 'vs) services \<Rightarrow> 'vs rag_chain \<Rightarrow> string \<Rightarrow> 'w \<Rightarrow> (exn + string) \<times> 'w" where
  \<comment> \<open>\<open>(parallel_chain | prompt | llm | parser).invoke(question)\<close>\<close>
  "chain_invoke svc ch question w =
     (case retriever_invoke svc (chain_retriever ch) question w of
        (Inl e, w1) \<Rightarrow> (Inl e, w1)
      | (Inr retrieved_docs, w1) \<Rightarrow>
          (case prompt_format (chain_prompt ch)
                  [(''context'', format_docs retrieved_docs), (''question'', question)] of
             Inl e \<Rightarrow> (Inl e, w1)
           | Inr filled \<Rightarrow> llm_invoke svc (chain_llm ch) filled w1))"

definition not_indexed_message :: string where
  "not_indexed_message = ''System not indexed yet. Call index_transcript() first.''"

definition query ::
  "('w, 'vs) services \<Rightarrow> 'vs RAGSystem \<Rightarrow> string \<Rightarrow> 'w \<Rightarrow> (exn + string) \<times> 'w" where
  "query svc self question w =
     (case chain self of
        None \<Rightarrow> (Inl (RuntimeError not_indexed_message None), w)
      | Some ch \<Rightarrow> chain_invoke svc ch question w)"

text \<open>
  The objects on which no call of \<open>index_transcript\<close> has succeeded yet: a freshly
  constructed one, and what a failed call leaves of such an object.
\<close>

inductive never_indexed :: "('w, 'vs) services \<Rightarrow> 'vs RAGSystem \<Rightarrow> bool"
  for svc :: "('w, 'vs) services" where
  fresh: "never_indexed svc (RAGSystem_init chunk_size' chunk_overlap' k' temperature')"
| failed: "never_indexed svc self \<Longrightarrow>
     index_transcript svc self transcript_text w = (Some e, self', w') \<Longrightarrow>
     never_indexed svc self'"

definition filled_prompt :: "string \<Rightarrow> string \<Rightarrow> string" where
  \<comment> \<open>the specification's words: the fixed template with its two slots filled\<close>
  "filled_prompt context question =
     ''You are an expert AI assistant. Use the following context to answer the question at the end.\<newline>'' @
     ''      if you don't know the answer, just say that you don't know, don't try to make up an answer.\<newline>'' @
     ''        Context: '' @ context @ ''\<newline>'' @
     ''        question: '' @ question @ ''\<newline>'' @
     ''         ''"


section \<open>The web session: \<open>app.py\<close>\<close>

text \<open>
  Streamlit runs the script from the top on every interaction, with the session state
  kept between runs. One run is modelled per interaction. \<open>st.stop()\<close> ends the run by
  raising a control exception that is not an \<open>Exception\<close>, so the handler's
  \<open>except Exception\<close> does not see it. What a run shows to the user is its outcome.
\<close>

record 'vs session =
  rag_system :: "'vs RAGSystem option"
  indexed :: bool
  video_id :: "string option"
  chat_history :: "(string \<times> string) list"

definition initial_session :: "'vs session" where
  "initial_session = \<lparr> rag_system = None, indexed = False, video_id = None, chat_history = [] \<rparr>"

record sliders =
  slider_chunk_size :: int
  slider_chunk_overlap :: int
  k_retrieval :: int
  slider_temperature :: real

datatype outcome =
    Video_indexed
  | Please_enter_url
  | Invalid_url
  | Error_shown exn
  | Answered string
  | Nothing_shown

definition process_video ::
  "'w transcript_api \<Rightarrow> 'w printer \<Rightarrow> ('w, 'vs) services \<Rightarrow> string \<Rightarrow> sliders \<Rightarrow>
     'vs session \<Rightarrow> 'w \<Rightarrow> outcome \<times> 'vs session \<times> 'w" where
  \<comment> \<open>the handler of the Process Video button\<close>
  "process_video ytt_api print_out svc youtube_url sl s w =
     (if youtube_url = [] then (Please_enter_url, s, w)
      else
        (case extract_video_id youtube_url of
           None \<Rightarrow> (Invalid_url, s, w)
         | Some vid \<Rightarrow>
             (let s1 = s \<lparr> video_id := Some vid \<rparr> in
              case fetch_transcript ytt_api print_out vid w of
                (Inl e, w1) \<Rightarrow> (Error_shown e, s1 \<lparr> indexed := False \<rparr>, w1)
              | (Inr transcript_text, w1) \<Rightarrow>
                  (let rag = RAGSystem_init (slider_chunk_size sl) (slider_chunk_overlap sl)
                               (k_retrieval sl) (slider_temperature sl)
                   in case index_transcript svc rag transcript_text w1 of
                        (Some e, rag', w2) \<Rightarrow> (Error_shown e, s1 \<lparr> indexed := False \<rparr>, w2)
                      | (None, rag', w2) \<Rightarrow>
                          (Video_indexed,
                           s1 \<lparr> rag_system := Some rag', indexed := True, chat_history := [] \<rparr>,
                           w2)))))"

definition clear_conversation :: "'vs session \<Rightarrow> 'vs session" where
  \<comment> \<open>the Clear Conversation button, which exists only while \<open>indexed\<close> holds\<close>
  "clear_conversation s = (if indexed s then s \<lparr> chat_history := [] \<rparr> else s)"

definition ask ::
  "('w, 'vs) services \<Rightarrow> string \<Rightarrow> 'vs session \<Rightarrow> 'w \<Rightarrow> outcome \<times> 'vs session \<times> 'w" where
  \<comment> \<open>the chat input, which exists only while \<open>indexed\<close> holds\<close>
  "ask svc question s w =
     (if \<not> indexed s \<or> question = [] then (Nothing_shown, s, w)
      else
        (case rag_system s of
           None \<Rightarrow> (Error_shown (OtherException ''AttributeError''), s, w)
         | Some rag \<Rightarrow>
             (case query svc rag question w of
                (Inl e, w1) \<Rightarrow> (Error_shown e, s, w1)
              | (Inr answer, w1) \<Rightarrow>
                  (Answered answer, s \<lparr> chat_history := chat_history s @ [(question, answer)] \<rparr>, w1))))"

datatype interaction =
    Process_video string sliders
  | Clear_conversation
  | Ask string

definition run ::
  "bool \<Rightarrow> 'w transcript_api \<Rightarrow> 'w printer \<Rightarrow> ('w, 'vs) services \<Rightarrow> interaction \<Rightarrow>
     'vs session \<Rightarrow> 'w \<Rightarrow> outcome \<times> 'vs session \<times> 'w" where
  \<comment> \<open>one run of the script; without the API key the sidebar stops it at once\<close>
  "run api_key ytt_api print_out svc ev s w =
     (if \<not> api_key then (Nothing_shown, s, w)
      else
        (case ev of
           Process_video youtube_url sl \<Rightarrow> process_video ytt_api print_out svc youtube_url sl s w
         | Clear_conversation \<Rightarrow> (Nothing_shown, clear_conversation s, w)
         | Ask question \<Rightarrow> ask svc question s w))"


section \<open>Stand-ins for the external collaborators\<close>

text \<open>
  Concrete collaborators on which the theorems below are exercised. The world is a
  counter of the calls made. The transcript source answers the request for \<open>en\<close> with
  \<open>first\<close> and any other request with \<open>second\<close>; the splitter cuts a text once, after
  \<open>chunk_size\<close> characters, the chunks themselves are the vector store, the retriever
  returns its first \<open>search_k\<close> chunks and the chat model echoes its prompt. The
  standard output takes every message when it is UTF-8 and only the messages made of
  ASCII characters otherwise.
\<close>

definition example_api :: "exn + snippet list \<Rightarrow> exn + snippet list \<Rightarrow> nat transcript_api" where
  "example_api first second vid languages w =
     (if languages = [''en''] then first else second, Suc w)"

definition example_stdout :: "bool \<Rightarrow> nat printer" where
  "example_stdout utf8 message w =
     (if utf8 \<or> list_all (\<lambda>c. (of_char c :: nat) < 128) message then None
      else Some (OtherException ''UnicodeEncodeError''), Suc w)"

definition example_services :: "bool \<Rightarrow> (nat, document list) services" where
  "example_services embedding_up =
     \<lparr> create_documents = (\<lambda>sp texts.
          concat (map (\<lambda>t. [\<lparr> page_content = take (nat (splitter_chunk_size sp)) t \<rparr>,
                              \<lparr> page_content = drop (nat (splitter_chunk_size sp)) t \<rparr>]) texts)),
       from_documents = (\<lambda>docs m w.
          (if embedding_up then Inr docs else Inl (OtherException ''quota''), Suc w)),
       retriever_invoke = (\<lambda>r q w. (Inr (take (nat (search_k r)) (store r)), Suc w)),
       llm_invoke = (\<lambda>m p w. (Inr p, Suc w)) \<rparr>"

definition example_sliders :: sliders where
  "example_sliders =
     \<lparr> slider_chunk_size = 1000, slider_chunk_overlap = 200, k_retrieval = 4,
       slider_temperature = 2 / 10 \<rparr>"

definition example_snippets :: "snippet list" where
  "example_snippets = [\<lparr> snippet_text = ''never gonna'' \<rparr>, \<lparr> snippet_text = ''give you up'' \<rparr>]"

definition ready_session :: "document list session" where
  \<comment> \<open>the session after one video was indexed and one question answered\<close>
  "ready_session =
     (let (out1, s1, w1) =
            run True (example_api (Inr example_snippets) (Inr [])) (example_stdout True)
              (example_services True)
              (Process_video ''https://www.youtube.com/watch?v=dQw4w9WgXcQ'' example_sliders)
              initial_session 0;
          (out2, s2, w2) =
            run True (example_api (Inr example_snippets) (Inr [])) (example_stdout True)
              (example_services True)
              (Ask ''What is promised?'') s1 w1
      in s2)"

section \<open>Properties of \<open>extract_video_id\<close>\<close>

lemma after_intro_v: "after_intro (CHR ''v'' # CHR ''='' # r) = Some r"
  by (simp add: after_intro_def)

lemma after_intro_slash: "after_intro (CHR ''/'' # r) = Some r"
  by (simp add: after_intro_def)

lemma after_intro_SomeD:
  "after_intro s = Some r \<Longrightarrow> s = ''v='' @ r \<or> s = ''/'' @ r"
  unfolding after_intro_def
  by (metis append_take_drop_id option.distinct(1) option.inject)

lemma match_here_intro:
  assumes "intro = ''v='' \<or> intro = ''/''" "length tok = 11" "list_all id_char tok" "terminator rest"
  shows "match_here (intro @ tok @ rest) = Some tok"
  using assms by (auto simp: match_here_def after_intro_v after_intro_slash)

lemma match_here_SomeD:
  assumes "match_here s = Some tok"
  shows "\<exists>intro rest. s = intro @ tok @ rest \<and> (intro = ''v='' \<or> intro = ''/'') \<and>
           length tok = 11 \<and> list_all id_char tok \<and> terminator rest"
proof -
  from assms obtain r where r: "after_intro s = Some r"
    and c: "11 \<le> length r" "list_all id_char (take 11 r)" "terminator (drop 11 r)"
    and t: "tok = take 11 r"
    by (auto simp: match_here_def split: option.splits if_splits)
  from r have "s = ''v='' @ r \<or> s = ''/'' @ r" by (rule after_intro_SomeD)
  then have "\<exists>intro. s = intro @ tok @ drop 11 r \<and> (intro = ''v='' \<or> intro = ''/'')"
    using t by auto
  moreover have "length tok = 11" using c(1) t by simp
  ultimately show ?thesis using c t by blast
qed

lemma re_search_None_iff:
  "re_search s = None \<longleftrightarrow> (\<forall>i\<le>length s. match_here (drop i s) = None)"
proof (induction s)
  case Nil
  then show ?case by simp
next
  case (Cons c cs)
  have "(\<forall>i\<le>length (c # cs). match_here (drop i (c # cs)) = None) \<longleftrightarrow>
        match_here (c # cs) = None \<and> (\<forall>i\<le>length cs. match_here (drop i cs) = None)"
    (is "?L \<longleftrightarrow> ?R")
  proof
    assume l: ?L
    have "match_here (drop 0 (c # cs)) = None" using l by blast
    moreover have "match_here (drop i cs) = None" if "i \<le> length cs" for i
      using l [rule_format, of "Suc i"] that by simp
    ultimately show ?R by simp
  next
    assume r: ?R
    show ?L
    proof (intro allI impI)
      fix i assume "i \<le> length (c # cs)"
      then show "match_here (drop i (c # cs)) = None"
        using r by (cases i) auto
    qed
  qed
  with Cons show ?case by (auto split: option.splits)
qed

lemma re_search_skip:
  "(\<forall>i<length pre. match_here (drop i (pre @ s)) = None) \<Longrightarrow> re_search (pre @ s) = re_search s"
proof (induction pre)
  case Nil
  then show ?case by simp
next
  case (Cons c pre)
  have h0: "match_here ((c # pre) @ s) = None"
    using Cons.prems [rule_format, of 0] by simp
  have "match_here (drop i (pre @ s)) = None" if "i < length pre" for i
    using Cons.prems [rule_format, of "Suc i"] that by simp
  then have "re_search (pre @ s) = re_search s" using Cons.IH by blast
  with h0 show ?case by simp
qed

lemma re_search_here: "match_here s = Some t \<Longrightarrow> re_search s = Some t"
  by (cases s) auto

lemma re_search_SomeD:
  "re_search s = Some t \<Longrightarrow> \<exists>pre r. s = pre @ r \<and> match_here r = Some t \<and>
      (\<forall>i<length pre. match_here (drop i s) = None)"
proof (induction s)
  case Nil
  then show ?case by auto
next
  case (Cons c cs)
  show ?case
  proof (cases "match_here (c # cs)")
    case (Some g)
    with Cons.prems have "g = t" by simp
    with Some have "c # cs = [] @ (c # cs) \<and> match_here (c # cs) = Some t \<and>
       (\<forall>i<length ([]::string). match_here (drop i (c # cs)) = None)" by simp
    then show ?thesis by blast
  next
    case None
    with Cons.prems have "re_search cs = Some t" by simp
    from Cons.IH [OF this] obtain pre r where pr: "cs = pre @ r" "match_here r = Some t"
      "\<forall>i<length pre. match_here (drop i cs) = None" by blast
    have "\<forall>i<length (c # pre). match_here (drop i (c # cs)) = None"
    proof (intro allI impI)
      fix i assume "i < length (c # pre)"
      then show "match_here (drop i (c # cs)) = None"
        using None pr(3) by (cases i) auto
    qed
    with pr show ?thesis by (metis append_Cons)
  qed
qed


lemma match_here_Nil: "match_here [] = None"
  by (simp add: match_here_def after_intro_def)

lemma match_here_other:
  "c \<noteq> CHR ''v'' \<Longrightarrow> c \<noteq> CHR ''/'' \<Longrightarrow> match_here (c # cs) = None"
  by (cases cs) (simp_all add: match_here_def after_intro_def)

lemma match_here_slash_bad:
  "list_ex (\<lambda>x. \<not> id_char x) (take 11 cs) \<Longrightarrow> match_here (CHR ''/'' # cs) = None"
  by (auto simp: match_here_def after_intro_slash list_ex_iff list_all_iff)

lemma watch_shape:
  assumes "length tok = 11" "list_all id_char tok" "terminator rest"
  shows "extract_video_id (''https://www.youtube.com/watch?v='' @ tok @ rest) = Some tok"
proof -
  have m: "match_here (''v='' @ tok @ rest) = Some tok"
    using assms by (intro match_here_intro) simp_all
  show ?thesis
    unfolding extract_video_id_def
    using m by (simp add: match_here_other match_here_slash_bad id_char_def)
qed

lemma short_shape:
  assumes "length tok = 11" "list_all id_char tok" "terminator rest"
  shows "extract_video_id (''https://youtu.be/'' @ tok @ rest) = Some tok"
proof -
  have m: "match_here (''/'' @ tok @ rest) = Some tok"
    using assms by (intro match_here_intro) simp_all
  show ?thesis
    unfolding extract_video_id_def
    using m by (simp add: match_here_other match_here_slash_bad id_char_def)
qed

lemma embed_shape:
  assumes "length tok = 11" "list_all id_char tok" "terminator rest"
  shows "extract_video_id (''https://www.youtube.com/embed/'' @ tok @ rest) = Some tok"
proof -
  have m: "match_here (''/'' @ tok @ rest) = Some tok"
    using assms by (intro match_here_intro) simp_all
  show ?thesis
    unfolding extract_video_id_def
    using m by (simp add: match_here_other match_here_slash_bad id_char_def)
qed

lemma no_match_before_code:
  "(\<forall>i<n. match_here (drop i url) = None) \<longleftrightarrow>
   list_all (\<lambda>i. match_here (drop i url) = None) [0..<n]"
  by (auto simp: list_all_iff)

lemma pattern_occurs_iff:
  "(\<exists>pre intro tok rest. url = pre @ intro @ tok @ rest \<and> (intro = ''v='' \<or> intro = ''/'') \<and>
       length tok = 11 \<and> list_all id_char tok \<and> terminator rest)
   \<longleftrightarrow> re_search url \<noteq> None"
proof
  assume "\<exists>pre intro tok rest. url = pre @ intro @ tok @ rest \<and> (intro = ''v='' \<or> intro = ''/'') \<and>
       length tok = 11 \<and> list_all id_char tok \<and> terminator rest"
  then obtain pre intro tok rest where u: "url = pre @ intro @ tok @ rest"
    and c: "intro = ''v='' \<or> intro = ''/''" "length tok = 11" "list_all id_char tok" "terminator rest"
    by blast
  have "match_here (drop (length pre) url) = Some tok"
    using u match_here_intro [OF c] by simp
  moreover have "length pre \<le> length url" using u by simp
  ultimately have "\<not> (\<forall>i\<le>length url. match_here (drop i url) = None)" by force
  then show "re_search url \<noteq> None" by (simp add: re_search_None_iff)
next
  assume "re_search url \<noteq> None"
  then obtain t where "re_search url = Some t" by blast
  from re_search_SomeD [OF this] obtain pre r where
    pr: "url = pre @ r" "match_here r = Some t" by blast
  from match_here_SomeD [OF pr(2)] pr(1)
  show "\<exists>pre intro tok rest. url = pre @ intro @ tok @ rest \<and> (intro = ''v='' \<or> intro = ''/'') \<and>
       length tok = 11 \<and> list_all id_char tok \<and> terminator rest"
    by blast
qed

lemma first_match:
  assumes "intro = ''v='' \<or> intro = ''/''" "length tok = 11" "list_all id_char tok" "terminator rest"
    and "\<forall>i<length pre. match_here (drop i (pre @ intro @ tok @ rest)) = None"
  shows "extract_video_id (pre @ intro @ tok @ rest) = Some tok"
proof -
  have "re_search (pre @ intro @ tok @ rest) = re_search (intro @ tok @ rest)"
    using assms(5) by (rule re_search_skip)
  also have "\<dots> = Some tok"
    using match_here_intro [OF assms(1-4)] by (rule re_search_here)
  finally show ?thesis by (simp add: extract_video_id_def)
qed

lemma extract_video_id_leftmost:
  "extract_video_id ''https://example.com/abcdefghijk?next=/watch?v=dQw4w9WgXcQ'' = Some ''abcdefghijk''"
  by (simp add: extract_video_id_def match_here_def after_intro_def id_char_def terminator_def)

text \<open>
  C5, as amended. For every 11-character token of the class \<^verbatim>\<open>[0-9A-Za-z_-]\<close> that is
  followed by \<open>&\<close>, by \<open>?\<close>, by the end of the string or by one newline that ends the
  string: \<open>extract_video_id\<close> returns exactly that token for the three documented URL
  shapes, and more generally for every URL in which the token follows \<open>v=\<close> or \<open>/\<close> and
  the pattern matches at no earlier position. It returns \<open>None\<close>, and raises nothing,
  exactly for the URLs in which no such token follows \<open>v=\<close> or \<open>/\<close>. The URL of the
  end-to-end scenario yields \<open>dQw4w9WgXcQ\<close>.
\<close>

theorem extract_video_id_token:
  "(length tok = 11 \<and> list_all id_char tok \<and> terminator rest \<longrightarrow>
      extract_video_id (''https://www.youtube.com/watch?v='' @ tok @ rest) = Some tok \<and>
      extract_video_id (''https://youtu.be/'' @ tok @ rest) = Some tok \<and>
      extract_video_id (''https://www.youtube.com/embed/'' @ tok @ rest) = Some tok \<and>
      ((intro = ''v='' \<or> intro = ''/'') \<and>
       (\<forall>i<length pre. match_here (drop i (pre @ intro @ tok @ rest)) = None) \<longrightarrow>
         extract_video_id (pre @ intro @ tok @ rest) = Some tok)) \<and>
   (extract_video_id url = None \<longleftrightarrow>
      \<not> (\<exists>pre intro tok rest. url = pre @ intro @ tok @ rest \<and> (intro = ''v='' \<or> intro = ''/'') \<and>
            length tok = 11 \<and> list_all id_char tok \<and> terminator rest)) \<and>
   extract_video_id ''https://www.youtube.com/watch?v=dQw4w9WgXcQ'' = Some ''dQw4w9WgXcQ''"
proof (intro conjI impI)
  assume a: "length tok = 11 \<and> list_all id_char tok \<and> terminator rest"
  then have t: "length tok = 11" "list_all id_char tok" "terminator rest" by simp_all
  show "extract_video_id (''https://www.youtube.com/watch?v='' @ tok @ rest) = Some tok"
    using t by (rule watch_shape)
  show "extract_video_id (''https://youtu.be/'' @ tok @ rest) = Some tok"
    using t by (rule short_shape)
  show "extract_video_id (''https://www.youtube.com/embed/'' @ tok @ rest) = Some tok"
    using t by (rule embed_shape)
  assume "(intro = ''v='' \<or> intro = ''/'') \<and>
       (\<forall>i<length pre. match_here (drop i (pre @ intro @ tok @ rest)) = None)"
  then have "intro = ''v='' \<or> intro = ''/''"
    and "\<forall>i<length pre. match_here (drop i (pre @ intro @ tok @ rest)) = None"
    by (rule conjunct1, rule conjunct2)
  with t show "extract_video_id (pre @ intro @ tok @ rest) = Some tok"
    by (intro first_match)
next
  show "extract_video_id url = None \<longleftrightarrow>
      \<not> (\<exists>pre intro tok rest. url = pre @ intro @ tok @ rest \<and> (intro = ''v='' \<or> intro = ''/'') \<and>
            length tok = 11 \<and> list_all id_char tok \<and> terminator rest)"
    unfolding pattern_occurs_iff extract_video_id_def by simp
next
  show "extract_video_id ''https://www.youtube.com/watch?v=dQw4w9WgXcQ'' = Some ''dQw4w9WgXcQ''"
    by (simp add: extract_video_id_def match_here_def after_intro_def id_char_def terminator_def)
qed

theorem extract_video_id_token_witness:
  "extract_video_id ''https://www.youtube.com/watch?v=dQw4w9WgXcQ&t=42s'' = Some ''dQw4w9WgXcQ'' \<and>
   extract_video_id ''https://youtu.be/dQw4w9WgXcQ&t=42s'' = Some ''dQw4w9WgXcQ'' \<and>
   extract_video_id ''https://www.youtube.com/embed/dQw4w9WgXcQ&t=42s'' = Some ''dQw4w9WgXcQ'' \<and>
   extract_video_id ''https://m.youtube.com/watch?v=dQw4w9WgXcQ&t=42s'' = Some ''dQw4w9WgXcQ'' \<and>
   extract_video_id ''https://example.com/watch'' = None"
proof -
  have tok: "length ''dQw4w9WgXcQ'' = 11 \<and> list_all id_char ''dQw4w9WgXcQ'' \<and> terminator ''&t=42s''"
    by (simp add: id_char_def terminator_def)
  have intro: "''v='' = ''v='' \<or> ''v='' = ''/''"
    by simp
  have before: "\<forall>i<length ''https://m.youtube.com/watch?''.
      match_here (drop i (''https://m.youtube.com/watch?'' @ ''v='' @ ''dQw4w9WgXcQ'' @ ''&t=42s'')) = None"
    unfolding no_match_before_code by code_simp
  have none: "\<not> (\<exists>pre intro tok rest. ''https://example.com/watch'' = pre @ intro @ tok @ rest \<and>
            (intro = ''v='' \<or> intro = ''/'') \<and>
            length tok = 11 \<and> list_all id_char tok \<and> terminator rest)"
    unfolding pattern_occurs_iff by code_simp
  from extract_video_id_token [of "''dQw4w9WgXcQ''" "''&t=42s''" "''v=''"
      "''https://m.youtube.com/watch?''" "''https://example.com/watch''"] tok intro before none
  show ?thesis by simp
qed

text \<open>
  C5 as stated fails: a URL whose token is followed by a newline has no token that is
  terminated by \<open>&\<close>, by \<open>?\<close> or by the end of the string, and \<open>extract_video_id\<close>
  returns the token all the same, since \<open>$\<close> also matches before a final newline.
\<close>

theorem extract_video_id_newline_counterexample:
  "\<not> spec_has_token ''https://youtu.be/dQw4w9WgXcQ\<newline>'' \<and>
   extract_video_id ''https://youtu.be/dQw4w9WgXcQ\<newline>'' = Some ''dQw4w9WgXcQ''"
  by (simp add: spec_has_token_def extract_video_id_def match_here_def after_intro_def
        id_char_def terminator_def upt_rec)

section \<open>Properties of \<open>fetch_transcript\<close>\<close>

lemma attempts_cases:
  "attempts ytt_api print_out vid w =
     (case ytt_api vid [''en''] w of
        (Inl (NoTranscriptFound m), w1) \<Rightarrow>
          (case fst (print_out no_english_message w1) of
             None \<Rightarrow> [[''en''], [''auto'', ''hi'', ''en'']]
           | Some raised \<Rightarrow> [[''en'']])
      | _ \<Rightarrow> [[''en'']])"
  by (simp add: attempts_def fetch_transcript_def logged_def beside_log_def Let_def
        split: prod.splits sum.splits exn.splits option.splits)

lemma str_join_Cons:
  "str_join sep (x # xs) = x @ concat (map (\<lambda>y. sep @ y) xs)"
  by (induction xs arbitrary: x) simp_all

lemma spec_join_Cons:
  "spec_join sep (x # xs) = x @ concat (map (\<lambda>y. sep @ y) xs)"
proof -
  have "[0..<length (x # xs)] = 0 # map Suc [0..<length xs]"
    by (simp add: upt_conv_Cons map_Suc_upt del: upt_Suc)
  then have "spec_join sep (x # xs) = x @ concat (map (\<lambda>i. sep @ xs ! i) [0..<length xs])"
    by (simp add: spec_join_def comp_def)
  also have "map (\<lambda>i. sep @ xs ! i) [0..<length xs] = map (\<lambda>y. sep @ y) (map ((!) xs) [0..<length xs])"
    by simp
  also have "map ((!) xs) [0..<length xs] = xs"
    by (rule map_nth)
  finally show ?thesis .
qed

lemma str_join_spec: "str_join sep xs = spec_join sep xs"
proof (cases xs)
  case Nil
  then show ?thesis by (simp add: spec_join_def)
next
  case (Cons x ys)
  then show ?thesis by (simp only: str_join_Cons spec_join_Cons)
qed

text \<open>
  What the fallback path does when the progress message can be printed: after
  \<open>NoTranscriptFound\<close> exactly one more request is made, for the combined list, and a
  failure \<open>e\<close> of that request becomes one \<open>RuntimeError\<close> whose message ends with
  \<open>str(e)\<close> and whose context is \<open>e\<close>.
\<close>

lemma fallback_when_printed:
  assumes "ytt_api vid [''en''] w = (Inl (NoTranscriptFound m), w1)"
    and "print_out no_english_message w1 = (None, w2)"
  shows "attempts ytt_api print_out vid w = [[''en''], [''auto'', ''hi'', ''en'']]"
    and "ytt_api vid [''auto'', ''hi'', ''en''] w2 = (Inl e, w3) \<Longrightarrow>
         fetch_transcript ytt_api print_out vid w =
           (Inl (RuntimeError (unavailable_prefix @ exn_str e) (Some e)), w3)"
  using assms by (simp_all add: attempts_cases fetch_transcript_def)

text \<open>
  What it does when the message cannot be printed: the exception of \<open>print\<close> leaves
  the handler, so the fallback list is never requested and the exception is not wrapped.
\<close>

lemma fallback_when_print_raises:
  assumes "ytt_api vid [''en''] w = (Inl (NoTranscriptFound m), w1)"
    and "print_out no_english_message w1 = (Some raised, w2)"
  shows "attempts ytt_api print_out vid w = [[''en'']]"
    and "fetch_transcript ytt_api print_out vid w = (Inl raised, w2)"
  using assms by (simp_all add: attempts_cases fetch_transcript_def)

text \<open>
  C6 fails on the code. The video below has no English transcript and has one in the
  fallback languages, and the standard output is not UTF-8: the call raises the
  \<open>UnicodeEncodeError\<close> of the progress message, unwrapped, and the only request made
  is the one for \<open>en\<close>.
\<close>

theorem fetch_transcript_fallback_skipped:
  "fetch_transcript (example_api (Inl (NoTranscriptFound ''none'')) (Inr example_snippets))
      (example_stdout False) ''dQw4w9WgXcQ'' 0 = (Inl (OtherException ''UnicodeEncodeError''), 2) \<and>
   attempts (example_api (Inl (NoTranscriptFound ''none'')) (Inr example_snippets))
      (example_stdout False) ''dQw4w9WgXcQ'' 0 = [[''en'']]"
  by (simp add: attempts_cases fetch_transcript_def example_api_def example_stdout_def
        no_english_message_def)

text \<open>
  C10. If the request for \<open>en\<close> fails with anything but \<open>NoTranscriptFound\<close>, that
  exception is the result as it is, and the request for \<open>en\<close> is the only one made.
  The fallback list is requested exactly when the request for \<open>en\<close> raised
  \<open>NoTranscriptFound\<close> and the progress message was printed.
\<close>

theorem fetch_transcript_propagates:
  "(ytt_api vid [''en''] w = (Inl e, w1) \<and> (\<forall>m. e \<noteq> NoTranscriptFound m) \<longrightarrow>
      fetch_transcript ytt_api print_out vid w = (Inl e, w1) \<and>
      attempts ytt_api print_out vid w = [[''en'']]) \<and>
   ([''auto'', ''hi'', ''en''] \<in> set (attempts ytt_api print_out vid w) \<longleftrightarrow>
      (\<exists>m. fst (ytt_api vid [''en''] w) = Inl (NoTranscriptFound m)) \<and>
      fst (print_out no_english_message (snd (ytt_api vid [''en''] w))) = None)"
proof -
  have "fetch_transcript ytt_api print_out vid w = (Inl e, w1) \<and>
        attempts ytt_api print_out vid w = [[''en'']]"
    if "ytt_api vid [''en''] w = (Inl e, w1)" and "\<forall>m. e \<noteq> NoTranscriptFound m"
    using that by (cases e) (auto simp: attempts_cases fetch_transcript_def)
  moreover have "[''auto'', ''hi'', ''en''] \<in> set (attempts ytt_api print_out vid w) \<longleftrightarrow>
      (\<exists>m. fst (ytt_api vid [''en''] w) = Inl (NoTranscriptFound m)) \<and>
      fst (print_out no_english_message (snd (ytt_api vid [''en''] w))) = None"
  proof (cases "ytt_api vid [''en''] w")
    case (Pair r w0)
    show ?thesis
    proof (cases r)
      case (Inl raised)
      with Pair show ?thesis
        by (cases raised) (auto simp: attempts_cases split: option.splits)
    next
      case (Inr fetched)
      with Pair show ?thesis
        by (simp add: attempts_cases)
    qed
  qed
  ultimately show ?thesis by blast
qed

theorem fetch_transcript_propagates_witness:
  "fetch_transcript (example_api (Inl (OtherException ''network'')) (Inr example_snippets))
      (example_stdout True) ''dQw4w9WgXcQ'' 0 = (Inl (OtherException ''network''), 1) \<and>
   attempts (example_api (Inl (OtherException ''network'')) (Inr example_snippets))
      (example_stdout True) ''dQw4w9WgXcQ'' 0 = [[''en'']]"
  using fetch_transcript_propagates
    [of "example_api (Inl (OtherException ''network'')) (Inr example_snippets)"
        "''dQw4w9WgXcQ''" 0 "OtherException ''network''" 1 "example_stdout True"]
  by (simp add: example_api_def)

text \<open>
  C8. Whenever \<open>fetch_transcript\<close> returns a text, the source returned snippets to the
  request for \<open>en\<close>, or to the fallback request after \<open>NoTranscriptFound\<close>, and the text
  is the texts of these snippets in their order with a single space between neighbours.
  And it does return that text: whenever the source returns snippets to the request
  for \<open>en\<close>, or to the fallback request, and the progress messages on the way are
  printed, the result is the texts of the snippets joined so.
\<close>

theorem fetch_transcript_text:
  "(fetch_transcript ytt_api print_out vid w = (Inr full_text, w') \<longrightarrow>
      (\<exists>snippets.
         ((\<exists>w1. ytt_api vid [''en''] w = (Inr snippets, w1) \<and>
                print_out extracted_message w1 = (None, w')) \<or>
          (\<exists>m w1 w2 w3. ytt_api vid [''en''] w = (Inl (NoTranscriptFound m), w1) \<and>
                print_out no_english_message w1 = (None, w2) \<and>
                ytt_api vid [''auto'', ''hi'', ''en''] w2 = (Inr snippets, w3) \<and>
                print_out extracted_message w3 = (None, w'))) \<and>
         full_text = spec_join '' '' (map snippet_text snippets))) \<and>
   (ytt_api vid [''en''] w = (Inr snippets, w1) \<and>
    print_out extracted_message w1 = (None, w2) \<longrightarrow>
      fetch_transcript ytt_api print_out vid w =
        (Inr (spec_join '' '' (map snippet_text snippets)), w2)) \<and>
   (ytt_api vid [''en''] w = (Inl (NoTranscriptFound m), w1) \<and>
    print_out no_english_message w1 = (None, w2) \<and>
    ytt_api vid [''auto'', ''hi'', ''en''] w2 = (Inr snippets, w3) \<and>
    print_out extracted_message w3 = (None, w4) \<longrightarrow>
      fetch_transcript ytt_api print_out vid w =
        (Inr (spec_join '' '' (map snippet_text snippets)), w4))"
proof (intro conjI impI)
  assume "fetch_transcript ytt_api print_out vid w = (Inr full_text, w')"
  then show "\<exists>snippets.
         ((\<exists>w1. ytt_api vid [''en''] w = (Inr snippets, w1) \<and>
                print_out extracted_message w1 = (None, w')) \<or>
          (\<exists>m w1 w2 w3. ytt_api vid [''en''] w = (Inl (NoTranscriptFound m), w1) \<and>
                print_out no_english_message w1 = (None, w2) \<and>
                ytt_api vid [''auto'', ''hi'', ''en''] w2 = (Inr snippets, w3) \<and>
                print_out extracted_message w3 = (None, w'))) \<and>
         full_text = spec_join '' '' (map snippet_text snippets)"
    by (auto simp: fetch_transcript_def str_join_spec Let_def
          split: prod.splits sum.splits exn.splits option.splits)
next
  assume "ytt_api vid [''en''] w = (Inr snippets, w1) \<and>
    print_out extracted_message w1 = (None, w2)"
  then show "fetch_transcript ytt_api print_out vid w =
        (Inr (spec_join '' '' (map snippet_text snippets)), w2)"
    by (simp add: fetch_transcript_def str_join_spec)
next
  assume "ytt_api vid [''en''] w = (Inl (NoTranscriptFound m), w1) \<and>
    print_out no_english_message w1 = (None, w2) \<and>
    ytt_api vid [''auto'', ''hi'', ''en''] w2 = (Inr snippets, w3) \<and>
    print_out extracted_message w3 = (None, w4)"
  then show "fetch_transcript ytt_api print_out vid w =
        (Inr (spec_join '' '' (map snippet_text snippets)), w4)"
    by (simp add: fetch_transcript_def str_join_spec)
qed

theorem fetch_transcript_text_witness:
  "fetch_transcript (example_api (Inr example_snippets) (Inr [])) (example_stdout True)
      ''dQw4w9WgXcQ'' 0 = (Inr ''never gonna give you up'', 2) \<and>
   fetch_transcript (example_api (Inl (NoTranscriptFound ''none'')) (Inr example_snippets))
      (example_stdout True) ''dQw4w9WgXcQ'' 0 = (Inr ''never gonna give you up'', 4) \<and>
   ''never gonna give you up'' = spec_join '' '' (map snippet_text example_snippets)"
proof -
  let ?english = "example_api (Inr example_snippets) (Inr [])"
  let ?other = "example_api (Inl (NoTranscriptFound ''none'')) (Inr example_snippets)"
  let ?out = "example_stdout True"
  have joined: "spec_join '' '' (map snippet_text example_snippets) = ''never gonna give you up''"
    by (simp add: spec_join_def example_snippets_def upt_rec)
  have "?english ''dQw4w9WgXcQ'' [''en''] 0 = (Inr example_snippets, 1) \<and>
        ?out extracted_message 1 = (None, 2)"
    by (simp add: example_api_def example_stdout_def)
  with fetch_transcript_text
    [where ytt_api = ?english and print_out = ?out and vid = "''dQw4w9WgXcQ''" and w = 0
       and snippets = example_snippets and ?w1.0 = 1 and ?w2.0 = 2]
  have first: "fetch_transcript ?english ?out ''dQw4w9WgXcQ'' 0 =
      (Inr (spec_join '' '' (map snippet_text example_snippets)), 2)"
    by blast
  have "?other ''dQw4w9WgXcQ'' [''en''] 0 = (Inl (NoTranscriptFound ''none''), 1) \<and>
        ?out no_english_message 1 = (None, 2) \<and>
        ?other ''dQw4w9WgXcQ'' [''auto'', ''hi'', ''en''] 2 = (Inr example_snippets, 3) \<and>
        ?out extracted_message 3 = (None, 4)"
    by (simp add: example_api_def example_stdout_def)
  with fetch_transcript_text
    [where ytt_api = ?other and print_out = ?out and vid = "''dQw4w9WgXcQ''" and w = 0
       and snippets = example_snippets and m = "''none''"
       and ?w1.0 = 1 and ?w2.0 = 2 and ?w3.0 = 3 and ?w4.0 = 4]
  have second: "fetch_transcript ?other ?out ''dQw4w9WgXcQ'' 0 =
      (Inr (spec_join '' '' (map snippet_text example_snippets)), 4)"
    by blast
  from first second joined show ?thesis by simp
qed

section \<open>Properties of \<open>RAGSystem\<close>\<close>

lemma index_transcript_failed:
  "index_transcript svc self transcript_text w = (Some e, self', w') \<Longrightarrow> self' = self"
  by (auto simp: index_transcript_def build_chain_def Let_def split: prod.splits sum.splits)

lemma never_indexed_chain: "never_indexed svc self \<Longrightarrow> chain self = None"
proof (induction rule: never_indexed.induct)
  case (fresh chunk_size' chunk_overlap' k' temperature')
  show ?case by (simp add: RAGSystem_init_def)
next
  case (failed self transcript_text w e self' w')
  from failed.hyps(2) have "self' = self" by (rule index_transcript_failed)
  with failed.IH show ?case by simp
qed

text \<open>
  C1. On an object on which no call of \<open>index_transcript\<close> has succeeded, every call
  of \<open>query\<close> raises the \<open>RuntimeError\<close> that says the system is not indexed: it returns
  no answer and reaches no external service (the world is as before).
\<close>

theorem query_before_indexing:
  "never_indexed svc self \<Longrightarrow>
     query svc self question w = (Inl (RuntimeError not_indexed_message None), w)"
  by (simp add: query_def never_indexed_chain)

theorem query_before_indexing_witness:
  "query (example_services False) (RAGSystem_init 1000 200 4 (2 / 10)) ''What is promised?'' 7 =
     (Inl (RuntimeError ''System not indexed yet. Call index_transcript() first.'' None), 7)"
proof -
  let ?rag = "RAGSystem_init 1000 200 4 (2 / 10) :: document list RAGSystem"
  have "index_transcript (example_services False) ?rag ''never gonna give you up'' 0 =
          (Some (OtherException ''quota''), ?rag, 1)"
    by (simp add: index_transcript_def example_services_def)
  with never_indexed.fresh have "never_indexed (example_services False) ?rag"
    by (rule never_indexed.failed)
  from query_before_indexing [OF this, of "''What is promised?''" 7]
  show ?thesis by (simp add: not_indexed_message_def)
qed

lemma prompt_format_template:
  "prompt_format prompt_template [(''context'', c), (''question'', q)] = Inr (filled_prompt c q)"
  by (simp add: prompt_format_def prompt_template_def filled_prompt_def)

lemma index_transcript_succeeded:
  assumes "index_transcript svc (RAGSystem_init cs co kk t) transcript_text w0 = (None, self, w1)"
  shows "\<exists>vs. from_documents svc
               (create_documents svc \<lparr> splitter_chunk_size = cs, splitter_chunk_overlap = co \<rparr>
                  [transcript_text])
               ''text-embedding-3-small'' w0 = (Inr vs, w1) \<and>
             self = (RAGSystem_init cs co kk t)
               \<lparr> vector_store := Some vs,
                 retriever := Some \<lparr> store = vs, search_type = ''similarity'', search_k = kk \<rparr>,
                 chain := Some \<lparr> chain_retriever =
                                   \<lparr> store = vs, search_type = ''similarity'', search_k = kk \<rparr>,
                                 chain_prompt = prompt_template,
                                 chain_llm = \<lparr> model = ''gpt-4o-mini'', model_temperature = t \<rparr> \<rparr> \<rparr>"
  using assms
  by (auto simp: index_transcript_def build_chain_def RAGSystem_init_def Let_def
           split: prod.splits sum.splits)

text \<open>
  C9. On an object that \<open>index_transcript\<close> has indexed, with the chunks \<open>docs\<close> that the
  retriever returns for the question: the chat model is called once, with the template
  whose \<open>{context}\<close> slot holds the texts of \<open>docs\<close> in their order with a blank line
  between neighbours and whose \<open>{question}\<close> slot holds the question; what it returns is
  what \<open>query\<close> returns.
\<close>

theorem query_prompt:
  "index_transcript svc (RAGSystem_init cs co kk t) transcript_text w0 = (None, self, w1) \<and>
   vector_store self = Some vs \<and>
   retriever_invoke svc \<lparr> store = vs, search_type = ''similarity'', search_k = kk \<rparr> question w
     = (Inr docs, w') \<longrightarrow>
   query svc self question w =
     llm_invoke svc \<lparr> model = ''gpt-4o-mini'', model_temperature = t \<rparr>
       (filled_prompt (spec_join ''\<newline>\<newline>'' (map page_content docs)) question) w'"
proof
  assume a: "index_transcript svc (RAGSystem_init cs co kk t) transcript_text w0 = (None, self, w1) \<and>
   vector_store self = Some vs \<and>
   retriever_invoke svc \<lparr> store = vs, search_type = ''similarity'', search_k = kk \<rparr> question w
     = (Inr docs, w')"
  from a index_transcript_succeeded [of svc cs co kk t transcript_text w0 self w1]
  have ch: "chain self = Some \<lparr> chain_retriever =
                                   \<lparr> store = vs, search_type = ''similarity'', search_k = kk \<rparr>,
                                 chain_prompt = prompt_template,
                                 chain_llm = \<lparr> model = ''gpt-4o-mini'', model_temperature = t \<rparr> \<rparr>"
    by auto
  from a have r: "retriever_invoke svc \<lparr> store = vs, search_type = ''similarity'', search_k = kk \<rparr>
      question w = (Inr docs, w')" by simp
  show "query svc self question w =
     llm_invoke svc \<lparr> model = ''gpt-4o-mini'', model_temperature = t \<rparr>
       (filled_prompt (spec_join ''\<newline>\<newline>'' (map page_content docs)) question) w'"
    by (simp only: query_def ch option.case chain_invoke_def rag_chain.simps r prod.case sum.case
          prompt_format_template format_docs_def str_join_spec)
qed


theorem query_prompt_witness:
  "query (example_services True)
     (fst (snd (index_transcript (example_services True) (RAGSystem_init 11 0 4 (2 / 10))
                  ''never gonna give you up'' 0)))
     ''What is promised?'' 1 =
   (Inr (filled_prompt ''never gonna\<newline>\<newline> give you up'' ''What is promised?''), 3)"
proof -
  let ?svc = "example_services True"
  let ?self = "fst (snd (index_transcript ?svc (RAGSystem_init 11 0 4 (2 / 10))
                  ''never gonna give you up'' 0))"
  let ?vs = "[\<lparr> page_content = ''never gonna'' \<rparr>, \<lparr> page_content = '' give you up'' \<rparr>]"
  have idx: "index_transcript ?svc (RAGSystem_init 11 0 4 (2 / 10)) ''never gonna give you up'' 0 =
      (None, ?self, 1)"
    by (simp add: index_transcript_def build_chain_def example_services_def RAGSystem_init_def Let_def)
  have vs: "vector_store ?self = Some ?vs"
    by (simp add: index_transcript_def build_chain_def example_services_def RAGSystem_init_def Let_def)
  have ret: "retriever_invoke ?svc \<lparr> store = ?vs, search_type = ''similarity'', search_k = 4 \<rparr>
      ''What is promised?'' 1 = (Inr ?vs, 2)"
    by (simp add: example_services_def)
  have ctx: "spec_join ''\<newline>\<newline>'' (map page_content ?vs) = ''never gonna\<newline>\<newline> give you up''"
    by (simp add: spec_join_def upt_rec)
  from query_prompt [of ?svc 11 0 4 "2 / 10" "''never gonna give you up''" 0 ?self 1 ?vs
      "''What is promised?''" 1 ?vs 2] idx vs ret
  have "query ?svc ?self ''What is promised?'' 1 =
     llm_invoke ?svc \<lparr> model = ''gpt-4o-mini'', model_temperature = 2 / 10 \<rparr>
       (filled_prompt (spec_join ''\<newline>\<newline>'' (map page_content ?vs)) ''What is promised?'') 2"
    by blast
  then show ?thesis
    by (simp only: ctx) (simp add: example_services_def)
qed

section \<open>Properties of the web session\<close>

lemma process_video_cases:
  fixes svc :: "('w, 'vs) services"
  assumes "process_video ytt_api print_out svc url sl s w = (out, s', w')"
  shows "(out = Please_enter_url \<and> s' = s \<and> w' = w) \<or>
         (out = Invalid_url \<and> s' = s \<and> w' = w) \<or>
         (\<exists>e vid. out = Error_shown e \<and> s' = s \<lparr> video_id := Some vid, indexed := False \<rparr>) \<or>
         (\<exists>vid transcript_text w1 rag.
            out = Video_indexed \<and>
            extract_video_id url = Some vid \<and>
            fetch_transcript ytt_api print_out vid w = (Inr transcript_text, w1) \<and>
            index_transcript svc
              (RAGSystem_init (slider_chunk_size sl) (slider_chunk_overlap sl)
                 (k_retrieval sl) (slider_temperature sl))
              transcript_text w1 = (None, rag, w') \<and>
            s' = s \<lparr> video_id := Some vid, rag_system := Some rag, indexed := True,
                     chat_history := [] \<rparr>)"
proof (cases "url = []")
  case True
  with assms show ?thesis by (simp add: process_video_def)
next
  case nonempty: False
  show ?thesis
  proof (cases "extract_video_id url")
    case None
    with assms nonempty show ?thesis by (simp add: process_video_def)
  next
    case (Some vid)
    show ?thesis
    proof (cases "fetch_transcript ytt_api print_out vid w")
      case (Pair r w1)
      show ?thesis
      proof (cases r)
        case (Inl e)
        with assms nonempty Some Pair show ?thesis
          by (auto simp: process_video_def)
      next
        case (Inr transcript_text)
        let ?rag = "RAGSystem_init (slider_chunk_size sl) (slider_chunk_overlap sl)
                      (k_retrieval sl) (slider_temperature sl) :: 'vs RAGSystem"
        obtain x rag' w2 where idx: "index_transcript svc ?rag transcript_text w1 = (x, rag', w2)"
          by (cases "index_transcript svc ?rag transcript_text w1") auto
        show ?thesis
        proof (cases x)
          case None
          with assms nonempty Some Pair Inr idx
          have "out = Video_indexed" and "w' = w2"
            and "s' = s \<lparr> video_id := Some vid, rag_system := Some rag', indexed := True,
                     chat_history := [] \<rparr>"
            by (simp_all add: process_video_def)
          with Some Pair Inr idx None show ?thesis by blast
        next
          case (Some e)
          with assms nonempty \<open>extract_video_id url = Some vid\<close> Pair Inr idx show ?thesis
            by (auto simp: process_video_def)
        qed
      qed
    qed
  qed
qed

lemma ask_rag_system:
  "ask svc question s w = (out, s', w') \<Longrightarrow> rag_system s' = rag_system s"
  by (auto simp: ask_def split: if_splits option.splits prod.splits sum.splits)

text \<open>
  C2, as amended. An attempt of the Process Video handler that does not end with the
  video indexed leaves the RAG system object and the chat history of the session as
  they were; when it ends with an exception the \<open>indexed\<close> flag is off afterwards, and
  when the URL is empty or invalid the whole session is as it was. A successful attempt
  stores the new index, that is the RAG system object that \<open>index_transcript\<close> has built
  from the transcript fetched for the video of the URL, with the settings of the
  sliders and with its chain in place; it empties the chat history and sets \<open>indexed\<close>.
  In every run of the script, if the RAG system object of the session has changed then
  the run indexed a video and the chat history is empty afterwards.
\<close>

theorem process_video_atomic:
  fixes svc :: "('w, 'vs) services"
  shows
  "(process_video ytt_api print_out svc url sl s w = (out, s', w') \<longrightarrow>
      (out \<noteq> Video_indexed \<longrightarrow>
         rag_system s' = rag_system s \<and> chat_history s' = chat_history s) \<and>
      ((\<exists>e. out = Error_shown e) \<longrightarrow> \<not> indexed s') \<and>
      (out = Please_enter_url \<or> out = Invalid_url \<longrightarrow> s' = s) \<and>
      (out = Video_indexed \<longrightarrow>
         indexed s' \<and> chat_history s' = [] \<and>
         (\<exists>rag ch. rag_system s' = Some rag \<and> chain rag = Some ch) \<and>
         (\<exists>vid transcript_text w1 rag.
            extract_video_id url = Some vid \<and>
            fetch_transcript ytt_api print_out vid w = (Inr transcript_text, w1) \<and>
            index_transcript svc
              (RAGSystem_init (slider_chunk_size sl) (slider_chunk_overlap sl)
                 (k_retrieval sl) (slider_temperature sl))
              transcript_text w1 = (None, rag, w') \<and>
            s' = s \<lparr> video_id := Some vid, rag_system := Some rag, indexed := True,
                     chat_history := [] \<rparr>))) \<and>
   (run api_key ytt_api print_out svc ev s w = (out2, s2, w2) \<and> rag_system s2 \<noteq> rag_system s \<longrightarrow>
      out2 = Video_indexed \<and> chat_history s2 = [] \<and> indexed s2)"
proof -
  have part1: "(out \<noteq> Video_indexed \<longrightarrow>
         rag_system s' = rag_system s \<and> chat_history s' = chat_history s) \<and>
      ((\<exists>e. out = Error_shown e) \<longrightarrow> \<not> indexed s') \<and>
      (out = Please_enter_url \<or> out = Invalid_url \<longrightarrow> s' = s) \<and>
      (out = Video_indexed \<longrightarrow>
         indexed s' \<and> chat_history s' = [] \<and>
         (\<exists>rag ch. rag_system s' = Some rag \<and> chain rag = Some ch) \<and>
         (\<exists>vid transcript_text w1 rag.
            extract_video_id url = Some vid \<and>
            fetch_transcript ytt_api print_out vid w = (Inr transcript_text, w1) \<and>
            index_transcript svc
              (RAGSystem_init (slider_chunk_size sl) (slider_chunk_overlap sl)
                 (k_retrieval sl) (slider_temperature sl))
              transcript_text w1 = (None, rag, w') \<and>
            s' = s \<lparr> video_id := Some vid, rag_system := Some rag, indexed := True,
                     chat_history := [] \<rparr>))"
    if a: "process_video ytt_api print_out svc url sl s w = (out, s', w')"
  proof -
    note c = process_video_cases [OF a]
    have failing: "rag_system s' = rag_system s \<and> chat_history s' = chat_history s"
      if "out \<noteq> Video_indexed"
      using c that by auto
    have shown: "\<not> indexed s'" if "\<exists>e. out = Error_shown e"
      using c that by auto
    have untouched: "s' = s" if "out = Please_enter_url \<or> out = Invalid_url"
      using c that by auto
    have stored: "\<exists>vid transcript_text w1 rag.
            extract_video_id url = Some vid \<and>
            fetch_transcript ytt_api print_out vid w = (Inr transcript_text, w1) \<and>
            index_transcript svc
              (RAGSystem_init (slider_chunk_size sl) (slider_chunk_overlap sl)
                 (k_retrieval sl) (slider_temperature sl))
              transcript_text w1 = (None, rag, w') \<and>
            s' = s \<lparr> video_id := Some vid, rag_system := Some rag, indexed := True,
                     chat_history := [] \<rparr>"
      if "out = Video_indexed"
      using c that by auto
    have ready: "indexed s' \<and> chat_history s' = [] \<and>
        (\<exists>rag ch. rag_system s' = Some rag \<and> chain rag = Some ch)"
      if v: "out = Video_indexed"
    proof -
      from stored [OF v] obtain vid transcript_text w1 rag where
        idx: "index_transcript svc
              (RAGSystem_init (slider_chunk_size sl) (slider_chunk_overlap sl)
                 (k_retrieval sl) (slider_temperature sl))
              transcript_text w1 = (None, rag, w')"
        and st: "s' = s \<lparr> video_id := Some vid, rag_system := Some rag, indexed := True,
                     chat_history := [] \<rparr>"
        by blast
      from index_transcript_succeeded [OF idx] obtain ch where "chain rag = Some ch"
        by fastforce
      with st show ?thesis by simp
    qed
    from failing shown untouched stored ready show ?thesis by blast
  qed
  have part2: "out2 = Video_indexed \<and> chat_history s2 = [] \<and> indexed s2"
    if b: "run api_key ytt_api print_out svc ev s w = (out2, s2, w2) \<and> rag_system s2 \<noteq> rag_system s"
  proof -
    from b have key: api_key
      by (auto simp: run_def split: if_splits)
    show ?thesis
    proof (cases ev)
      case (Process_video youtube_url sliders)
      with b key have "process_video ytt_api print_out svc youtube_url sliders s w = (out2, s2, w2)"
        by (simp add: run_def)
      from process_video_cases [OF this] b show ?thesis by auto
    next
      case Clear_conversation
      with b key show ?thesis by (auto simp: run_def clear_conversation_def split: if_splits)
    next
      case (Ask question)
      with b key have "ask svc question s w = (out2, s2, w2)" by (simp add: run_def)
      from ask_rag_system [OF this] b show ?thesis by simp
    qed
  qed
  from part1 part2 show ?thesis by blast
qed

theorem process_video_atomic_witness:
  "fst (process_video (example_api (Inl (OtherException ''network'')) (Inr []))
          (example_stdout True) (example_services True) ''https://youtu.be/9bZkp7q19f0''
          example_sliders ready_session 3)
     = Error_shown (OtherException ''network'') \<and>
   rag_system (fst (snd (process_video (example_api (Inl (OtherException ''network'')) (Inr []))
          (example_stdout True) (example_services True) ''https://youtu.be/9bZkp7q19f0''
          example_sliders ready_session 3)))
     = rag_system ready_session \<and>
   chat_history (fst (snd (process_video (example_api (Inl (OtherException ''network'')) (Inr []))
          (example_stdout True) (example_services True) ''https://youtu.be/9bZkp7q19f0''
          example_sliders ready_session 3)))
     = chat_history ready_session \<and>
   chat_history ready_session \<noteq> [] \<and>
   fst (run True (example_api (Inr [\<lparr> snippet_text = ''oppa'' \<rparr>]) (Inr []))
          (example_stdout True) (example_services True)
          (Process_video ''https://youtu.be/9bZkp7q19f0'' example_sliders)
          ready_session 3) = Video_indexed \<and>
   chat_history (fst (snd (run True (example_api (Inr [\<lparr> snippet_text = ''oppa'' \<rparr>]) (Inr []))
          (example_stdout True) (example_services True)
          (Process_video ''https://youtu.be/9bZkp7q19f0'' example_sliders)
          ready_session 3))) = [] \<and>
   rag_system (fst (snd (process_video (example_api (Inr [\<lparr> snippet_text = ''oppa'' \<rparr>]) (Inr []))
          (example_stdout True) (example_services True) ''https://youtu.be/9bZkp7q19f0''
          example_sliders ready_session 3)))
     = Some (fst (snd (index_transcript (example_services True)
                         (RAGSystem_init 1000 200 4 (2 / 10)) ''oppa'' 5)))"
proof -
  let ?svc = "example_services True"
  let ?out = "example_stdout True"
  let ?bad_api = "example_api (Inl (OtherException ''network'')) (Inr [])"
  let ?good_api = "example_api (Inr [\<lparr> snippet_text = ''oppa'' \<rparr>]) (Inr [])"
  let ?bad = "process_video ?bad_api ?out ?svc ''https://youtu.be/9bZkp7q19f0''
                example_sliders ready_session 3"
  let ?good = "run True ?good_api ?out ?svc
                 (Process_video ''https://youtu.be/9bZkp7q19f0'' example_sliders) ready_session 3"
  let ?pv = "process_video ?good_api ?out ?svc ''https://youtu.be/9bZkp7q19f0''
               example_sliders ready_session 3"
  have out: "fst ?bad = Error_shown (OtherException ''network'')"
    by code_simp
  have hist: "chat_history ready_session \<noteq> []"
    by code_simp
  have changed: "rag_system (fst (snd ?good)) \<noteq> rag_system ready_session"
    by code_simp
  have bad: "?bad = (Error_shown (OtherException ''network''), fst (snd ?bad), snd (snd ?bad))"
    using out by (simp add: prod_eq_iff)
  have good: "?good = (fst ?good, fst (snd ?good), snd (snd ?good))"
    by simp
  have indexed_out: "fst ?pv = Video_indexed"
    by code_simp
  have pv: "?pv = (Video_indexed, fst (snd ?pv), snd (snd ?pv))"
    using indexed_out by (simp add: prod_eq_iff)
  from process_video_atomic
    [where ytt_api = ?bad_api and print_out = ?out and svc = ?svc
       and url = "''https://youtu.be/9bZkp7q19f0''" and sl = example_sliders
       and s = ready_session and w = 3
       and out = "Error_shown (OtherException ''network'')"
       and s' = "fst (snd ?bad)" and w' = "snd (snd ?bad)"] bad
  have kept: "rag_system (fst (snd ?bad)) = rag_system ready_session \<and>
      chat_history (fst (snd ?bad)) = chat_history ready_session"
    by blast
  from process_video_atomic
    [where ytt_api = ?good_api and print_out = ?out and svc = ?svc
       and s = ready_session and w = 3 and api_key = True
       and ev = "Process_video ''https://youtu.be/9bZkp7q19f0'' example_sliders"
       and ?out2.0 = "fst ?good" and ?s2.0 = "fst (snd ?good)" and ?w2.0 = "snd (snd ?good)"]
    good changed
  have replaced: "fst ?good = Video_indexed \<and> chat_history (fst (snd ?good)) = []"
    by blast
  from process_video_atomic
    [where ytt_api = ?good_api and print_out = ?out and svc = ?svc
       and url = "''https://youtu.be/9bZkp7q19f0''" and sl = example_sliders
       and s = ready_session and w = 3 and out = Video_indexed
       and s' = "fst (snd ?pv)" and w' = "snd (snd ?pv)"] pv
  obtain vid transcript_text w1 rag where
    f: "fetch_transcript ?good_api ?out vid 3 = (Inr transcript_text, w1)"
    and i: "index_transcript ?svc
              (RAGSystem_init (slider_chunk_size example_sliders)
                 (slider_chunk_overlap example_sliders)
                 (k_retrieval example_sliders) (slider_temperature example_sliders))
              transcript_text w1 = (None, rag, snd (snd ?pv))"
    and st: "fst (snd ?pv) = ready_session \<lparr> video_id := Some vid, rag_system := Some rag,
                indexed := True, chat_history := [] \<rparr>"
    by blast
  from f have "transcript_text = ''oppa''" and "w1 = 5"
    by (simp_all add: fetch_transcript_def example_api_def example_stdout_def)
  with i have "rag = fst (snd (index_transcript ?svc (RAGSystem_init 1000 200 4 (2 / 10)) ''oppa'' 5))"
    by (simp add: example_sliders_def)
  with st have stored: "rag_system (fst (snd ?pv)) =
      Some (fst (snd (index_transcript ?svc (RAGSystem_init 1000 200 4 (2 / 10)) ''oppa'' 5)))"
    by simp
  from out kept hist replaced stored show ?thesis
    by blast
qed

text \<open>
  C2 as stated fails: the attempt below starts in a session that is ready, with one
  turn in its history, fails while fetching the transcript, and leaves a session that
  is not the one before: the \<open>indexed\<close> flag is off and the video id is the new one.
\<close>

theorem process_video_failure_counterexample:
  "fst (process_video (example_api (Inl (OtherException ''network'')) (Inr []))
          (example_stdout True) (example_services True) ''https://youtu.be/9bZkp7q19f0''
          example_sliders ready_session 3)
     = Error_shown (OtherException ''network'') \<and>
   indexed ready_session \<and>
   \<not> indexed (fst (snd (process_video (example_api (Inl (OtherException ''network'')) (Inr []))
          (example_stdout True) (example_services True) ''https://youtu.be/9bZkp7q19f0''
          example_sliders ready_session 3))) \<and>
   video_id ready_session = Some ''dQw4w9WgXcQ'' \<and>
   video_id (fst (snd (process_video (example_api (Inl (OtherException ''network'')) (Inr []))
          (example_stdout True) (example_services True) ''https://youtu.be/9bZkp7q19f0''
          example_sliders ready_session 3)))
     = Some ''9bZkp7q19f0'' \<and>
   fst (snd (process_video (example_api (Inl (OtherException ''network'')) (Inr []))
          (example_stdout True) (example_services True) ''https://youtu.be/9bZkp7q19f0''
          example_sliders ready_session 3))
     \<noteq> ready_session"
proof -
  let ?bad = "process_video (example_api (Inl (OtherException ''network'')) (Inr []))
          (example_stdout True) (example_services True) ''https://youtu.be/9bZkp7q19f0''
          example_sliders ready_session 3"
  have 1: "fst ?bad = Error_shown (OtherException ''network'')" by code_simp
  have 2: "indexed ready_session" by code_simp
  have 3: "\<not> indexed (fst (snd ?bad))" by code_simp
  have 4: "video_id ready_session = Some ''dQw4w9WgXcQ''" by code_simp
  have 5: "video_id (fst (snd ?bad)) = Some ''9bZkp7q19f0''" by code_simp
  from 2 3 have 6: "fst (snd ?bad) \<noteq> ready_session" by auto
  from 1 2 3 4 5 6 show ?thesis by blast
qed

end
